theory Spec2Isabelle
  imports Main "HOL-Library.Sublist" "HOL-Library.AList"
begin

section \<open>Python values used by the pipeline\<close>

text \<open>
  Strings are Python \<open>str\<close> values whose characters have code points below 256
  (\<^typ>\<open>string\<close>, one \<^typ>\<open>char\<close> per code point). The helpers below follow the Python
  built-ins the sources call.
\<close>

definition startswith :: "string \<Rightarrow> string \<Rightarrow> bool" where
  "startswith s p = prefix p s"

definition endswith :: "string \<Rightarrow> string \<Rightarrow> bool" where
  "endswith s p = suffix p s"

text \<open>\<open>sep.join(xs)\<close>.\<close>

fun join :: "string \<Rightarrow> string list \<Rightarrow> string" where
  "join sep [] = []"
| "join sep [x] = x"
| "join sep (x # y # ys) = x @ sep @ join sep (y # ys)"

text \<open>
  \<open>str.isspace\<close> on one character: TAB, LF, VT, FF, CR (9 to 13), the four separators
  FS, GS, RS, US and the space (28 to 32), NEL (133) and the no-break space (160). These
  are all the whitespace characters below 256, and the ones \<open>str.strip()\<close> removes.
\<close>

definition is_space :: "char \<Rightarrow> bool" where
  "is_space c =
     (let n = (of_char c :: nat)
      in (9 \<le> n \<and> n \<le> 13) \<or> (28 \<le> n \<and> n \<le> 32) \<or> n = 133 \<or> n = 160)"

text \<open>\<open>s.strip()\<close>.\<close>

definition strip :: "string \<Rightarrow> string" where
  "strip s = rev (dropWhile is_space (rev (dropWhile is_space s)))"

text \<open>\<open>s[a:-b]\<close> for non-negative literals \<open>a\<close> and \<open>b > 0\<close>: the stop index
  \<open>len(s) - b\<close> is clamped at zero, and an empty range gives the empty string.\<close>

definition slice_from_to_end :: "nat \<Rightarrow> nat \<Rightarrow> string \<Rightarrow> string" where
  "slice_from_to_end a b s = drop a (take (length s - b) s)"

text \<open>\<open>s.split(c)[0]\<close> for a one-character separator.\<close>

definition split_first :: "char \<Rightarrow> string \<Rightarrow> string" where
  "split_first c s = takeWhile (\<lambda>x. x \<noteq> c) s"

text \<open>Decimal rendering of a non-negative integer, as \<open>f"{i}"\<close> prints it.\<close>

definition digit_char :: "nat \<Rightarrow> char" where
  "digit_char d = char_of (48 + d)"

fun str_nat :: "nat \<Rightarrow> string" where
  "str_nat n = (if n < 10 then [digit_char n] else str_nat (n div 10) @ [digit_char (n mod 10)])"

declare str_nat.simps [simp del]

text \<open>\<open>sub in s\<close> on strings.\<close>

fun contains :: "string \<Rightarrow> string \<Rightarrow> bool" where
  "contains [] sub = (sub = [])"
| "contains (c # cs) sub = (prefix sub (c # cs) \<or> contains cs sub)"

text \<open>Number of positions of \<open>s\<close> at which \<open>sub\<close> occurs.\<close>

fun count_occurrences :: "string \<Rightarrow> string \<Rightarrow> nat" where
  "count_occurrences [] sub = 0"
| "count_occurrences (c # cs) sub =
     (if prefix sub (c # cs) then 1 else 0) + count_occurrences cs sub"

text \<open>
  Exceptions. \<open>HTTPException\<close> is FastAPI's, the two \<open>requests\<close> classes are the ones
  \<open>query_database\<close> catches by name, the next four are the built-in errors raised by
  subscripting and attribute access, and \<open>Error\<close> stands for any other exception
  (SQLAlchemy, ChromaDB, Ollama) with its message.
\<close>

datatype exn =
    HTTPException nat string
  | ConnectionError string
  | RequestException string
  | KeyError string
  | TypeError string
  | AttributeError string
  | IndexError string
  | Error string

text \<open>\<open>str(e)\<close>, as \<open>f"{e}"\<close> renders it: Starlette prints an \<open>HTTPException\<close> as
  status and detail, a \<open>KeyError\<close> prints the quoted key.\<close>

fun exn_str :: "exn \<Rightarrow> string" where
  "exn_str (HTTPException status detail) = str_nat status @ '': '' @ detail"
| "exn_str (ConnectionError m) = m"
| "exn_str (RequestException m) = m"
| "exn_str (KeyError k) = [CHR 0x27] @ k @ [CHR 0x27]"
| "exn_str (TypeError m) = m"
| "exn_str (AttributeError m) = m"
| "exn_str (IndexError m) = m"
| "exn_str (Error m) = m"

section \<open>Schema introspection (app.py)\<close>

text \<open>
  One entry of \<open>inspector.get_columns\<close>: a dict with \<open>name\<close> and \<open>type\<close> (the latter
  already rendered by \<open>str\<close>) and the two keys read with \<open>.get\<close>, absent on some backends.
\<close>

record column =
  col_name :: string
  col_type :: string
  primary_key :: "int option"
  nullable :: "bool option"

text \<open>One entry of \<open>inspector.get_foreign_keys\<close>; \<open>name\<close> is \<open>None\<close> when the backend
  reports no constraint name.\<close>

record foreign_key =
  fk_name :: "string option"
  constrained_columns :: "string list"
  referred_table :: string
  referred_columns :: "string list"

text \<open>
  What SQLAlchemy answers for the configured URI: \<open>create_engine\<close> and \<open>inspect\<close> may
  raise, and so may each metadata call.
\<close>

record database =
  connect :: "exn option"
  get_table_names :: "exn + string list"
  get_columns :: "string \<Rightarrow> exn + column list"
  get_foreign_keys :: "string \<Rightarrow> exn + foreign_key list"

text \<open>Truth values of \<open>col.get('primary_key')\<close> and \<open>col.get('nullable')\<close>.\<close>

definition is_primary_key :: "column \<Rightarrow> bool" where
  "is_primary_key col = (case primary_key col of None \<Rightarrow> False | Some n \<Rightarrow> n \<noteq> 0)"

definition is_nullable :: "column \<Rightarrow> bool" where
  "is_nullable col = (case nullable col of None \<Rightarrow> False | Some b \<Rightarrow> b)"

text \<open>\<open>f"{x}"\<close> for a value that is a string or \<open>None\<close>.\<close>

definition str_opt :: "string option \<Rightarrow> string" where
  "str_opt x = (case x of None \<Rightarrow> ''None'' | Some s \<Rightarrow> s)"

text \<open>The column line, built in both extraction functions by the same statements.\<close>

definition col_def :: "column \<Rightarrow> string" where
  "col_def col =
     (let d0 = ''    '' @ col_name col @ '' '' @ col_type col;
          d1 = (if is_primary_key col then d0 @ '' PRIMARY KEY'' else d0);
          d2 = (if \<not> is_nullable col then d1 @ '' NOT NULL'' else d1)
      in d2)"

text \<open>The \<open>ALTER TABLE\<close> clause, the same f-string in both extraction functions.\<close>

definition fk_constraint :: "string \<Rightarrow> foreign_key \<Rightarrow> string" where
  "fk_constraint table_name fk =
     ''ALTER TABLE '' @ table_name @ '' ADD CONSTRAINT '' @ str_opt (fk_name fk) @ '' ''
     @ ''FOREIGN KEY ('' @ join '', '' (constrained_columns fk) @ '') ''
     @ ''REFERENCES '' @ referred_table fk @ '' ('' @ join '', '' (referred_columns fk) @ '');''"

subsection \<open>get_db_schema\<close>

fun col_definitions_loop :: "column list \<Rightarrow> string list \<Rightarrow> string list" where
  "col_definitions_loop [] col_definitions = col_definitions"
| "col_definitions_loop (col # cols) col_definitions =
     col_definitions_loop cols (col_definitions @ [col_def col])"

fun foreign_keys_loop :: "string \<Rightarrow> foreign_key list \<Rightarrow> string list \<Rightarrow> string list" where
  "foreign_keys_loop table_name [] schema_info = schema_info"
| "foreign_keys_loop table_name (fk # fks) schema_info =
     foreign_keys_loop table_name fks (schema_info @ [fk_constraint table_name fk])"

fun table_names_loop :: "database \<Rightarrow> string list \<Rightarrow> string list \<Rightarrow> exn + string list" where
  "table_names_loop db [] schema_info = Inr schema_info"
| "table_names_loop db (table_name # rest) schema_info =
     (let schema_info1 = schema_info @ [''CREATE TABLE '' @ table_name @ '' (''] in
      case get_columns db table_name of
        Inl e \<Rightarrow> Inl e
      | Inr columns \<Rightarrow>
          (let schema_info2 = schema_info1 @ [join '',\<newline>'' (col_definitions_loop columns [])];
               schema_info3 = schema_info2 @ ['');''] in
           case get_foreign_keys db table_name of
             Inl e \<Rightarrow> Inl e
           | Inr foreign_keys \<Rightarrow>
               table_names_loop db rest
                 (foreign_keys_loop table_name foreign_keys schema_info3 @ [''\<newline>''])))"

text \<open>The body of the \<open>try\<close> block of \<open>get_db_schema\<close>.\<close>

definition get_db_schema_try :: "database \<Rightarrow> exn + string" where
  "get_db_schema_try db =
     (case connect db of
        Some e \<Rightarrow> Inl e
      | None \<Rightarrow>
          (case get_table_names db of
             Inl e \<Rightarrow> Inl e
           | Inr table_names \<Rightarrow>
               (case table_names_loop db table_names [] of
                  Inl e \<Rightarrow> Inl e
                | Inr schema_info \<Rightarrow> Inr (join ''\<newline>'' schema_info))))"

text \<open>\<open>get_db_schema\<close>: the handler turns every exception into a returned string.\<close>

definition get_db_schema :: "database \<Rightarrow> exn + string" where
  "get_db_schema db =
     (case get_db_schema_try db of
        Inr s \<Rightarrow> Inr s
      | Inl e \<Rightarrow> Inr (''Error: Could not retrieve database schema. Details: '' @ exn_str e))"

subsection \<open>get_structured_db_schema\<close>

text \<open>
  The dicts of the structured schema. \<open>chroma_utils\<close> reads \<open>name\<close>, \<open>ddl\<close> and
  \<open>description\<close> with \<open>.get\<close> and a default, so these keys may be absent.
\<close>

record table_entry =
  t_name :: "string option"
  t_ddl :: "string option"
  t_description :: "string option"
  t_columns :: "string list"
  t_foreign_keys :: "string list"

record relationship =
  from_table :: string
  from_columns :: "string list"
  to_table :: string
  to_columns :: "string list"
  r_description :: "string option"

record structured_schema =
  tables :: "table_entry list"
  relationships :: "relationship list"
  error :: "string option"

text \<open>The loop over the columns of one table, with its two accumulators.\<close>

fun columns_loop :: "column list \<Rightarrow> string list \<times> string list \<Rightarrow> string list \<times> string list" where
  "columns_loop [] acc = acc"
| "columns_loop (col # cols) (col_definitions, column_descriptions) =
     (let constraints =
            (if is_primary_key col then [''primary key''] else [])
            @ (if \<not> is_nullable col then [''not null''] else []);
          constraint_desc =
            (if constraints \<noteq> [] then '' ('' @ join '', '' constraints @ '')'' else [])
      in columns_loop cols
           (col_definitions @ [col_def col],
            column_descriptions
            @ [col_name col @ '' ('' @ col_type col @ '')'' @ constraint_desc]))"

definition fk_desc :: "string \<Rightarrow> foreign_key \<Rightarrow> string" where
  "fk_desc table_name fk =
     table_name @ ''.'' @ join '', '' (constrained_columns fk) @ '' -> ''
     @ referred_table fk @ ''.'' @ join '', '' (referred_columns fk)"

text \<open>
  The loop over the foreign keys of one table: it extends \<open>table_ddl\<close>,
  \<open>fk_descriptions\<close> and the \<open>relationships\<close> list of the schema under construction.
\<close>

fun fk_loop ::
  "string \<Rightarrow> foreign_key list \<Rightarrow> string \<times> string list \<times> relationship list
     \<Rightarrow> string \<times> string list \<times> relationship list" where
  "fk_loop table_name [] acc = acc"
| "fk_loop table_name (fk # fks) (table_ddl, fk_descriptions, rels) =
     fk_loop table_name fks
       (table_ddl @ ''\<newline>'' @ fk_constraint table_name fk,
        fk_descriptions @ [fk_desc table_name fk],
        rels @ [\<lparr>from_table = table_name,
                 from_columns = constrained_columns fk,
                 to_table = referred_table fk,
                 to_columns = referred_columns fk,
                 r_description = Some (fk_desc table_name fk)\<rparr>])"

fun tables_loop :: "database \<Rightarrow> string list \<Rightarrow> structured_schema \<Rightarrow> exn + structured_schema" where
  "tables_loop db [] structured_schema = Inr structured_schema"
| "tables_loop db (table_name # rest) structured_schema =
     (case get_columns db table_name of
        Inl e \<Rightarrow> Inl e
      | Inr columns \<Rightarrow>
          (let (col_definitions, column_descriptions) = columns_loop columns ([], []);
               table_ddl_parts =
                 [''CREATE TABLE '' @ table_name @ '' ('', join '',\<newline>'' col_definitions, '');''];
               table_ddl0 = join ''\<newline>'' table_ddl_parts;
               table_description =
                 ''Table '' @ table_name @ '' with columns: '' @ join '', '' column_descriptions
           in case get_foreign_keys db table_name of
                Inl e \<Rightarrow> Inl e
              | Inr foreign_keys \<Rightarrow>
                  (let (table_ddl, fk_descriptions, rels) =
                         fk_loop table_name foreign_keys
                           (table_ddl0, [], relationships structured_schema)
                   in tables_loop db rest
                        (structured_schema
                           \<lparr>tables := tables structured_schema
                              @ [\<lparr>t_name = Some table_name,
                                   t_ddl = Some table_ddl,
                                   t_description = Some table_description,
                                   t_columns = column_descriptions,
                                   t_foreign_keys = fk_descriptions\<rparr>],
                            relationships := rels\<rparr>))))"

text \<open>The body of the \<open>try\<close> block of \<open>get_structured_db_schema\<close>.\<close>

definition get_structured_db_schema_try :: "database \<Rightarrow> exn + structured_schema" where
  "get_structured_db_schema_try db =
     (case connect db of
        Some e \<Rightarrow> Inl e
      | None \<Rightarrow>
          (case get_table_names db of
             Inl e \<Rightarrow> Inl e
           | Inr table_names \<Rightarrow>
               tables_loop db table_names \<lparr>tables = [], relationships = [], error = None\<rparr>))"

text \<open>\<open>get_structured_db_schema\<close>: the handler returns a dict with the \<open>error\<close> key.\<close>

definition get_structured_db_schema :: "database \<Rightarrow> exn + structured_schema" where
  "get_structured_db_schema db =
     (case get_structured_db_schema_try db of
        Inr s \<Rightarrow> Inr s
      | Inl e \<Rightarrow>
          Inr \<lparr>tables = [], relationships = [],
               error = Some (''Could not retrieve database schema. Details: '' @ exn_str e)\<rparr>)"

section \<open>JSON values and the Python operations on them\<close>

text \<open>
  A decoded JSON value. A number only matters through its truth value (zero or not), so
  an integer stands for it. An object is the association list of its members.
\<close>

datatype json =
    JNull
  | JBool bool
  | JNum int
  | JStr string
  | JArr "json list"
  | JObj "(string \<times> json) list"

definition quoted :: "string \<Rightarrow> string" where
  "quoted s = [CHR 0x27] @ s @ [CHR 0x27]"

fun type_name :: "json \<Rightarrow> string" where
  "type_name JNull = ''NoneType''"
| "type_name (JBool b) = ''bool''"
| "type_name (JNum n) = ''int''"
| "type_name (JStr s) = ''str''"
| "type_name (JArr xs) = ''list''"
| "type_name (JObj kvs) = ''dict''"

text \<open>The truth value of \<open>x\<close> in \<open>if x\<close>.\<close>

fun py_truthy :: "json \<Rightarrow> bool" where
  "py_truthy JNull = False"
| "py_truthy (JBool b) = b"
| "py_truthy (JNum n) = (n \<noteq> 0)"
| "py_truthy (JStr s) = (s \<noteq> [])"
| "py_truthy (JArr xs) = (xs \<noteq> [])"
| "py_truthy (JObj kvs) = (kvs \<noteq> [])"

text \<open>\<open>x.get(k)\<close>: only a dict has the method.\<close>

fun py_get :: "json \<Rightarrow> string \<Rightarrow> exn + json" where
  "py_get (JObj kvs) k = (case map_of kvs k of None \<Rightarrow> Inr JNull | Some v \<Rightarrow> Inr v)"
| "py_get x k =
     Inl (AttributeError (quoted (type_name x) @ '' object has no attribute '' @ quoted ''get''))"

text \<open>\<open>x[k]\<close> for a string key \<open>k\<close>.\<close>

fun py_subscript :: "json \<Rightarrow> string \<Rightarrow> exn + json" where
  "py_subscript (JObj kvs) k = (case map_of kvs k of None \<Rightarrow> Inl (KeyError k) | Some v \<Rightarrow> Inr v)"
| "py_subscript (JArr xs) k = Inl (TypeError ''list indices must be integers or slices, not str'')"
| "py_subscript (JStr s) k = Inl (TypeError ''string indices must be integers'')"
| "py_subscript x k = Inl (TypeError (quoted (type_name x) @ '' object is not subscriptable''))"

text \<open>The items of \<open>for output in x\<close>: a dict yields its keys, a string its characters.\<close>

fun py_iter :: "json \<Rightarrow> exn + json list" where
  "py_iter (JArr xs) = Inr xs"
| "py_iter (JObj kvs) = Inr (map (\<lambda>kv. JStr (fst kv)) kvs)"
| "py_iter (JStr s) = Inr (map (\<lambda>c. JStr [c]) s)"
| "py_iter x = Inl (TypeError (quoted (type_name x) @ '' object is not iterable''))"

text \<open>\<open>x.strip()\<close>: only a string has the method.\<close>

fun py_strip :: "json \<Rightarrow> exn + string" where
  "py_strip (JStr s) = Inr (strip s)"
| "py_strip x =
     Inl (AttributeError (quoted (type_name x) @ '' object has no attribute '' @ quoted ''strip''))"

text \<open>Sequencing of two steps of which the first may raise.\<close>

definition and_then :: "exn + 'a \<Rightarrow> ('a \<Rightarrow> exn + 'b) \<Rightarrow> exn + 'b" where
  "and_then m f = (case m of Inl e \<Rightarrow> Inl e | Inr x \<Rightarrow> f x)"

section \<open>The vector index (chroma_utils.py)\<close>

type_synonym metadata = "(string \<times> string) list"

text \<open>A collection maps a document id to its document, metadata and embedding; a client
  maps a collection name to the collection stored under it.\<close>

type_synonym 'v collection = "string \<rightharpoonup> string \<times> metadata \<times> 'v"

type_synonym 'v client = "string \<rightharpoonup> 'v collection"

text \<open>
  The collaborators outside the repository, as the pipeline calls them: the database behind
  \<open>DATABASE_URI\<close>, the persistent ChromaDB client, the Ollama embedding call, the
  nearest-neighbour query of a collection (its \<open>documents\<close> field; metadata and distances are
  only printed), the Langflow endpoint (\<open>requests.post\<close>, \<open>raise_for_status\<close> and
  \<open>response.json\<close> together) and the execution of a SQL text, which returns the column
  names and the rows.
\<close>

record ('v, 'a) services =
  database :: database
  DATABASE_URI :: string
  initialize_chroma_client :: "exn + 'v client"
  get_ollama_embedding :: "string \<Rightarrow> exn + 'v"
  collection_query :: "'v collection \<Rightarrow> 'v \<Rightarrow> nat \<Rightarrow> string list list option"
  langflow_post :: "string \<Rightarrow> exn + json"
  execute :: "string \<Rightarrow> exn + string list \<times> 'a list list"

definition collection_name :: string where
  "collection_name = ''sql_schema_embeddings''"

subsection \<open>add_schema_to_chroma\<close>

text \<open>\<open>table.get("name", f"table_{i}")\<close>.\<close>

definition table_name_of :: "nat \<Rightarrow> table_entry \<Rightarrow> string" where
  "table_name_of i table = (case t_name table of Some n \<Rightarrow> n | None \<Rightarrow> ''table_'' @ str_nat i)"

definition doc_content :: "nat \<Rightarrow> table_entry \<Rightarrow> string" where
  "doc_content i table =
     (let table_name = table_name_of i table;
          ddl = (case t_ddl table of Some d \<Rightarrow> d | None \<Rightarrow> []);
          description =
            (case t_description table of
               Some d \<Rightarrow> d
             | None \<Rightarrow> ''Schema for table '' @ table_name @ ''.'')
      in ''Table: '' @ table_name @ ''\<newline>DDL: '' @ ddl @ ''\<newline>Description: '' @ description)"

definition table_id :: "nat \<Rightarrow> table_entry \<Rightarrow> string" where
  "table_id i table = ''schema_table_'' @ table_name_of i table @ ''_'' @ str_nat i"

definition rel_description :: "nat \<Rightarrow> relationship \<Rightarrow> string" where
  "rel_description i rel =
     (case r_description rel of
        Some d \<Rightarrow> d
      | None \<Rightarrow> ''Database relationship '' @ str_nat i @ ''.'')"

definition rel_id :: "nat \<Rightarrow> string" where
  "rel_id i = ''schema_rel_'' @ str_nat i"

text \<open>The two \<open>enumerate\<close> loops, appending to \<open>documents\<close>, \<open>metadatas\<close> and \<open>ids\<close>.\<close>

fun enumerate_tables ::
  "nat \<Rightarrow> table_entry list \<Rightarrow> string list \<times> metadata list \<times> string list
     \<Rightarrow> string list \<times> metadata list \<times> string list" where
  "enumerate_tables i [] acc = acc"
| "enumerate_tables i (table # rest) (documents, metadatas, ids) =
     enumerate_tables (Suc i) rest
       (documents @ [doc_content i table],
        metadatas @ [[(''type'', ''table_schema''), (''table_name'', table_name_of i table)]],
        ids @ [table_id i table])"

fun enumerate_relationships ::
  "nat \<Rightarrow> relationship list \<Rightarrow> string list \<times> metadata list \<times> string list
     \<Rightarrow> string list \<times> metadata list \<times> string list" where
  "enumerate_relationships i [] acc = acc"
| "enumerate_relationships i (rel # rest) (documents, metadatas, ids) =
     enumerate_relationships (Suc i) rest
       (documents @ [rel_description i rel],
        metadatas @ [[(''type'', ''relationship'')]],
        ids @ [rel_id i])"

text \<open>The document-building part of \<open>add_schema_to_chroma\<close>: both loops, from empty lists.\<close>

definition build_documents ::
  "structured_schema \<Rightarrow> string list \<times> metadata list \<times> string list" where
  "build_documents schema_info =
     enumerate_relationships 0 (relationships schema_info)
       (enumerate_tables 0 (tables schema_info) ([], [], []))"

text \<open>\<open>[get_ollama_embedding(doc) for doc in documents]\<close>: the first failure is raised.\<close>

fun embeddings_of :: "(string \<Rightarrow> exn + 'v) \<Rightarrow> string list \<Rightarrow> exn + 'v list" where
  "embeddings_of get_embedding [] = Inr []"
| "embeddings_of get_embedding (doc # docs) =
     (case get_embedding doc of
        Inl e \<Rightarrow> Inl e
      | Inr v \<Rightarrow> (case embeddings_of get_embedding docs of Inl e \<Rightarrow> Inl e | Inr vs \<Rightarrow> Inr (v # vs)))"

text \<open>
  Modelled from the spec: \<open>collection.upsert\<close> belongs to ChromaDB, outside the repository.
  The spec's Vector Index contract is \<open>upsert(sequence of (id, vector, document, metadata))\<close>,
  where re-upserting the same id replaces content, vector and metadata: every entry is
  written under its id, in order.
\<close>

definition upsert ::
  "string list \<Rightarrow> metadata list \<Rightarrow> string list \<Rightarrow> 'v list \<Rightarrow> 'v collection \<Rightarrow> 'v collection" where
  "upsert documents metadatas ids embeddings collection =
     fold (\<lambda>(i, d, m, v) c. c(i \<mapsto> (d, m, v)))
       (zip ids (zip documents (zip metadatas embeddings))) collection"

text \<open>
  \<open>add_schema_to_chroma\<close>. It returns nothing; the result here is the client afterwards
  and the exception raised, if any. \<open>get_or_create_collection\<close> has taken effect before
  an embedding call can fail.
\<close>

definition add_schema_to_chroma ::
  "('v, 'a) services \<Rightarrow> 'v client \<Rightarrow> structured_schema \<Rightarrow> 'v client \<times> exn option" where
  "add_schema_to_chroma svc client schema_info =
     (let collection = (case client collection_name of Some c \<Rightarrow> c | None \<Rightarrow> Map.empty);
          client1 = client(collection_name \<mapsto> collection);
          (documents, metadatas, ids) = build_documents schema_info
      in if documents \<noteq> [] then
           (case embeddings_of (get_ollama_embedding svc) documents of
              Inl e \<Rightarrow> (client1, Some e)
            | Inr embeddings \<Rightarrow>
                (client1(collection_name \<mapsto> upsert documents metadatas ids embeddings collection),
                 None))
         else (client1, None))"

subsection \<open>query_schema_from_chroma\<close>

text \<open>The loop over \<open>results['documents'][0]\<close>; printing the first line of an empty
  document raises \<open>IndexError\<close>.\<close>

fun snippets_loop :: "string list \<Rightarrow> string list \<Rightarrow> exn + string list" where
  "snippets_loop [] relevant_schema_snippets = Inr relevant_schema_snippets"
| "snippets_loop (doc # docs) relevant_schema_snippets =
     (if doc = [] then Inl (IndexError ''list index out of range'')
      else snippets_loop docs (relevant_schema_snippets @ [doc]))"

definition query_schema_from_chroma ::
  "('v, 'a) services \<Rightarrow> 'v client \<Rightarrow> string \<Rightarrow> nat \<Rightarrow> exn + string list" where
  "query_schema_from_chroma svc client natural_language_query n_results =
     (case client collection_name of
        None \<Rightarrow> Inr []
      | Some collection \<Rightarrow>
          (case get_ollama_embedding svc natural_language_query of
             Inl e \<Rightarrow> Inl e
           | Inr query_embedding \<Rightarrow>
               (case collection_query svc collection query_embedding n_results of
                  Some (docs0 # others) \<Rightarrow> snippets_loop docs0 []
                | Some [] \<Rightarrow> Inr []
                | None \<Rightarrow> Inr [])))"

text \<open>A query result without documents: no \<open>documents\<close> field, no result list, or an
  empty result list for the one query embedding.\<close>

definition zero_documents :: "string list list option \<Rightarrow> bool" where
  "zero_documents results =
     (case results of None \<Rightarrow> True | Some [] \<Rightarrow> True | Some (docs0 # others) \<Rightarrow> docs0 = [])"

section \<open>The request pipeline (app.py, query_database)\<close>

record 'a query_response =
  sql_query :: string
  query_result :: "(string \<times> 'a) list list"

text \<open>The prompt template, an f-string of three values.\<close>

definition full_prompt_for_ollama :: "string \<Rightarrow> string \<Rightarrow> string \<Rightarrow> string" where
  "full_prompt_for_ollama llm_db_type schema_context_for_llm user_query =
     ''\<newline>You are an expert SQL query generator.\<newline>''
     @ ''Your task is to convert natural language questions into SQL queries for a ''
     @ llm_db_type @ '' database.\<newline>''
     @ ''You must only return the SQL query and nothing else.\<newline>''
     @ ''Focus only on the tables and columns provided in the schema below that are relevant to the user''
     @ [CHR 0x27] @ ''s question.\<newline>''
     @ ''\<newline>''
     @ ''Here is the database schema:\<newline>''
     @ ''```sql\<newline>''
     @ schema_context_for_llm @ ''\<newline>''
     @ ''```\<newline>''
     @ ''\<newline>''
     @ ''Based on this schema, generate a SQL query for the following natural language question:\<newline>''
     @ user_query @ ''\<newline>''"

text \<open>The conditional expression that chooses the schema context.\<close>

definition schema_context_for_llm :: "string list \<Rightarrow> string \<Rightarrow> string" where
  "schema_context_for_llm relevant_schema_snippets full_db_schema =
     (if relevant_schema_snippets \<noteq> [] then join ''\<newline>'' relevant_schema_snippets
      else full_db_schema)"

text \<open>The condition \<open>output.get('results') and output['results'].get('message')\<close>,
  as a truth value; evaluating it may raise.\<close>

definition output_has_message :: "json \<Rightarrow> exn + bool" where
  "output_has_message output =
     and_then (py_get output ''results'') (\<lambda>results.
       if \<not> py_truthy results then Inr False
       else and_then (py_subscript output ''results'') (\<lambda>results1.
         and_then (py_get results1 ''message'') (\<lambda>message. Inr (py_truthy message))))"

text \<open>The loop over \<open>langflow_result['outputs']\<close>, left by \<open>break\<close> at the first output
  for which the condition is true.\<close>

fun outputs_loop :: "json list \<Rightarrow> string \<Rightarrow> exn + string" where
  "outputs_loop [] generated_sql = Inr generated_sql"
| "outputs_loop (output # rest) generated_sql =
     and_then (output_has_message output) (\<lambda>found.
       if \<not> found then outputs_loop rest generated_sql
       else and_then (py_subscript output ''results'') (\<lambda>results.
         and_then (py_subscript results ''message'') (\<lambda>message.
           and_then (py_subscript message ''data'') (\<lambda>data.
             and_then (py_subscript data ''text'') py_strip))))"

text \<open>The extraction of the generated SQL from the decoded response.\<close>

definition extract_generated_sql :: "json \<Rightarrow> exn + string" where
  "extract_generated_sql langflow_result =
     (let generated_sql = ''Error: Could not extract SQL from Langflow response.'' in
      if \<not> py_truthy langflow_result then Inr generated_sql
      else and_then (py_get langflow_result ''outputs'') (\<lambda>outputs.
        if \<not> py_truthy outputs then Inr generated_sql
        else and_then (py_subscript langflow_result ''outputs'') (\<lambda>outputs1.
          and_then (py_iter outputs1) (\<lambda>items. outputs_loop items generated_sql))))"

text \<open>The "basic cleanup" of the fenced answer.\<close>

definition cleanup :: "string \<Rightarrow> string" where
  "cleanup generated_sql =
     (if startswith generated_sql ''```sql'' \<and> endswith generated_sql ''```''
      then strip (slice_from_to_end (length ''```sql'') (length ''```'') generated_sql)
      else generated_sql)"

text \<open>\<open>dict(zip(column_names, row))\<close>: a later duplicate of a key replaces its value.\<close>

definition dict :: "('k \<times> 'x) list \<Rightarrow> ('k \<times> 'x) list" where
  "dict kvs = fold (\<lambda>(k, v). AList.update k v) kvs []"

text \<open>The inner \<open>try\<close>: execution of the generated SQL.\<close>

definition execute_generated_sql ::
  "('v, 'a) services \<Rightarrow> string \<Rightarrow> exn + (string \<times> 'a) list list" where
  "execute_generated_sql svc generated_sql =
     (case execute svc generated_sql of
        Inl db_error \<Rightarrow>
          Inl (HTTPException 500
                 (''Database query failed. Possible invalid SQL: '' @ exn_str db_error))
      | Inr (column_names, rows) \<Rightarrow> Inr (map (\<lambda>row. dict (zip column_names row)) rows))"

text \<open>The body of the outer \<open>try\<close>.\<close>

definition langflow_try :: "('v, 'a) services \<Rightarrow> string \<Rightarrow> exn + 'a query_response" where
  "langflow_try svc input_value =
     and_then (langflow_post svc input_value) (\<lambda>langflow_result.
       and_then (extract_generated_sql langflow_result) (\<lambda>generated_sql0.
         (let generated_sql = cleanup generated_sql0 in
          and_then (execute_generated_sql svc generated_sql) (\<lambda>query_result.
            Inr \<lparr>sql_query = generated_sql, query_result = query_result\<rparr>))))"

text \<open>The three \<open>except\<close> clauses of the outer \<open>try\<close>, in order.\<close>

fun langflow_except :: "exn \<Rightarrow> exn" where
  "langflow_except (ConnectionError m) =
     HTTPException 500 ''Could not connect to Langflow API. Is Langflow running?''"
| "langflow_except (RequestException m) = HTTPException 500 (''Error from Langflow API: '' @ m)"
| "langflow_except e = HTTPException 500 (''An unexpected error occurred: '' @ exn_str e)"

text \<open>The endpoint. \<open>Inl\<close> is the exception that leaves it.\<close>

definition query_database :: "('v, 'a) services \<Rightarrow> string \<Rightarrow> exn + 'a query_response" where
  "query_database svc user_query =
     and_then (get_db_schema (database svc)) (\<lambda>full_db_schema.
       if startswith full_db_schema ''Error'' then Inl (HTTPException 500 full_db_schema)
       else
         (let llm_db_type = split_first (CHR ''+'') (split_first (CHR '':'') (DATABASE_URI svc)) in
          and_then (initialize_chroma_client svc) (\<lambda>chroma_client_instance.
            and_then (query_schema_from_chroma svc chroma_client_instance user_query 5)
              (\<lambda>relevant_schema_snippets.
                 (let context = schema_context_for_llm relevant_schema_snippets full_db_schema;
                      prompt = full_prompt_for_ollama llm_db_type context user_query
                  in case langflow_try svc (strip prompt) of
                       Inl e \<Rightarrow> Inl (langflow_except e)
                     | Inr response \<Rightarrow> Inr response)))))"

section \<open>Example inputs\<close>

text \<open>A database whose connection cannot be opened.\<close>

definition unreachable_db :: database where
  "unreachable_db =
     \<lparr>connect = Some (Error ''unable to open database file''),
      get_table_names = Inr [],
      get_columns = (\<lambda>t. Inr []),
      get_foreign_keys = (\<lambda>t. Inr [])\<rparr>"

text \<open>A database with two tables, where reading the columns of the second one raises.\<close>

definition half_readable_db :: database where
  "half_readable_db =
     \<lparr>connect = None,
      get_table_names = Inr [''Departments'', ''Employees''],
      get_columns = (\<lambda>t. if t = ''Departments''
         then Inr [\<lparr>col_name = ''DepartmentID'', col_type = ''INTEGER'',
                     primary_key = Some 1, nullable = Some False\<rparr>]
         else Inl (Error ''permission denied'')),
      get_foreign_keys = (\<lambda>t. Inr [])\<rparr>"

text \<open>Services around the unreachable database; every other collaborator answers.\<close>

definition unreachable_services :: "(nat, string) services" where
  "unreachable_services =
     \<lparr>database = unreachable_db,
      DATABASE_URI = ''sqlite:///./my_test_database.db'',
      initialize_chroma_client = Inr Map.empty,
      get_ollama_embedding = (\<lambda>t. Inr (length t)),
      collection_query = (\<lambda>c v n. Some [[]]),
      langflow_post = (\<lambda>p. Inr (JObj [])),
      execute = (\<lambda>q. Inr ([], []))\<rparr>"

text \<open>A database with the table of the rendering example.\<close>

definition employees_db :: database where
  "employees_db =
     \<lparr>connect = None,
      get_table_names = Inr [''Employees''],
      get_columns = (\<lambda>t. Inr
        [\<lparr>col_name = ''EmployeeID'', col_type = ''INTEGER'',
           primary_key = Some 1, nullable = Some False\<rparr>,
         \<lparr>col_name = ''FirstName'', col_type = ''TEXT'',
           primary_key = Some 0, nullable = Some False\<rparr>]),
      get_foreign_keys = (\<lambda>t. Inr [])\<rparr>"


text \<open>A Langflow response that carries a fenced answer, in the shape the code expects.\<close>

definition fenced_reply :: json where
  "fenced_reply =
     JObj [(''outputs'',
       JArr [JObj [(''results'',
         JObj [(''message'',
           JObj [(''data'',
             JObj [(''text'', JStr '' ```sql\<newline>SELECT FirstName FROM Employees;\<newline>```\<newline>'')])])])]])]"

text \<open>Services with an existing but empty collection and the fenced answer.\<close>

definition fenced_services :: "(nat, string) services" where
  "fenced_services =
     \<lparr>database = employees_db,
      DATABASE_URI = ''sqlite:///./my_test_database.db'',
      initialize_chroma_client = Inr [collection_name \<mapsto> Map.empty],
      get_ollama_embedding = (\<lambda>t. Inr (length t)),
      collection_query = (\<lambda>c v n. Some [[]]),
      langflow_post = (\<lambda>p. Inr fenced_reply),
      execute = (\<lambda>q. Inr ([''FirstName''], [[''Alice''], [''Bob'']]))\<rparr>"


section \<open>Properties\<close>

subsection \<open>Auxiliary facts\<close>

lemma and_then_Inr [simp]: "and_then (Inr x) f = f x"
  by (simp add: and_then_def)


lemma contains_self: "contains (sub @ b) sub"
proof (cases "sub @ b")
  case Nil
  then show ?thesis by simp
next
  case (Cons c cs)
  have "prefix sub (sub @ b)" by simp
  with Cons show ?thesis by simp
qed

lemma contains_skip: "contains s sub \<Longrightarrow> contains (a @ s) sub"
  by (induction a) auto

lemma contains_prefix: "prefix sub s \<Longrightarrow> contains s sub"
  by (auto simp: prefix_def contains_self)

lemma tables_loop_error:
  "tables_loop db ts s = Inr s' \<Longrightarrow> error s' = error s"
proof (induction ts arbitrary: s)
  case Nil
  then show ?case by simp
next
  case (Cons t ts)
  show ?case
  proof (cases "get_columns db t")
    case (Inl e)
    with Cons.prems show ?thesis by simp
  next
    case cols: (Inr columns)
    show ?thesis
    proof (cases "get_foreign_keys db t")
      case (Inl e)
      with Cons.prems cols show ?thesis by (simp split: prod.splits)
    next
      case fks: (Inr foreign_keys)
      from Cons.prems cols fks obtain s1 where
        "tables_loop db ts s1 = Inr s'" and "error s1 = error s"
        by (auto split: prod.splits)
      then show ?thesis using Cons.IH by fastforce
    qed
  qed
qed

text \<open>Both extraction functions make the same metadata calls in the same order, so
  they fail on the same databases with the same exception.\<close>

lemma loops_fail_alike:
  "table_names_loop db ts acc = Inl e \<longleftrightarrow> tables_loop db ts s = Inl e"
proof (induction ts arbitrary: acc s)
  case Nil
  then show ?case by simp
next
  case (Cons t ts)
  show ?case
  proof (cases "get_columns db t")
    case (Inl e)
    then show ?thesis by simp
  next
    case cols: (Inr columns)
    show ?thesis
    proof (cases "get_foreign_keys db t")
      case (Inl e)
      with cols show ?thesis by (simp split: prod.splits)
    next
      case fks: (Inr foreign_keys)
      with cols show ?thesis
        by (simp split: prod.splits add: Cons.IH[where s = "s\<lparr>tables := _, relationships := _\<rparr>"])
    qed
  qed
qed

lemma try_fail_alike:
  "get_db_schema_try db = Inl e \<longleftrightarrow> get_structured_db_schema_try db = Inl e"
proof (cases "connect db")
  case (Some x)
  then show ?thesis by (simp add: get_db_schema_try_def get_structured_db_schema_try_def)
next
  case None
  show ?thesis
  proof (cases "get_table_names db")
    case (Inl x)
    with None show ?thesis
      by (simp add: get_db_schema_try_def get_structured_db_schema_try_def)
  next
    case (Inr ts)
    have "table_names_loop db ts [] = Inl e
          \<longleftrightarrow> tables_loop db ts \<lparr>tables = [], relationships = [], error = None\<rparr> = Inl e"
      by (rule loops_fail_alike)
    with None Inr show ?thesis
      by (cases "table_names_loop db ts []")
         (simp_all add: get_db_schema_try_def get_structured_db_schema_try_def)
  qed
qed

lemma prompt_has_dialect:
  "contains (full_prompt_for_ollama llm_db_type schema_context user_query) llm_db_type"
  unfolding full_prompt_for_ollama_def
  by (rule contains_self | rule contains_skip)+

lemma prompt_has_question:
  "contains (full_prompt_for_ollama llm_db_type schema_context user_query) user_query"
  unfolding full_prompt_for_ollama_def
  by (rule contains_self | rule contains_skip)+

lemma prompt_has_instruction:
  "contains (full_prompt_for_ollama llm_db_type schema_context user_query)
     ''You must only return the SQL query and nothing else.''"
proof -
  have here: "contains (''You must only return the SQL query and nothing else.\<newline>'' @ rest)
     ''You must only return the SQL query and nothing else.''" for rest
    by (rule contains_prefix) simp
  show ?thesis
    unfolding full_prompt_for_ollama_def
    by (rule here | rule contains_skip)+
qed

lemma prompt_has_fenced_schema:
  "contains (full_prompt_for_ollama llm_db_type schema_context user_query)
     (''```sql\<newline>'' @ schema_context @ ''\<newline>```\<newline>'')"
proof -
  have here: "contains (''```sql\<newline>'' @ schema_context @ ''\<newline>'' @ ''```\<newline>'' @ rest)
     (''```sql\<newline>'' @ schema_context @ ''\<newline>```\<newline>'')" for rest
    by (rule contains_prefix) simp
  show ?thesis
    unfolding full_prompt_for_ollama_def
    by (rule here | rule contains_skip)+
qed

subsection \<open>Schema extraction failures\<close>

text \<open>
  Claim C3, as stated: when the connection cannot be opened or metadata enumeration
  raises, extraction fails with an error delivered to the caller and returns no snapshot
  value. It does not hold: on the unreachable database \<open>get_structured_db_schema\<close> returns
  normally, with a dict that has the shape of a snapshot.
\<close>

theorem extraction_failure_counterexample:
  "get_structured_db_schema unreachable_db =
     Inr \<lparr>tables = [], relationships = [],
          error = Some ''Could not retrieve database schema. Details: unable to open database file''\<rparr>"
  by (simp add: get_structured_db_schema_def get_structured_db_schema_try_def unreachable_db_def)

text \<open>
  Claim C3, amended: when the connection cannot be opened or a metadata call raises,
  neither extraction function raises. \<open>get_structured_db_schema\<close> returns a dict with an
  empty \<open>tables\<close> list, an empty \<open>relationships\<close> list and the failure text under \<open>error\<close>,
  so no table built before the failure is returned; \<open>get_db_schema\<close> returns the text
  that starts with \<open>Error\<close>.
\<close>

theorem extraction_failure_is_returned:
  assumes "get_structured_db_schema_try db = Inl e"
  shows "get_structured_db_schema db =
           Inr \<lparr>tables = [], relationships = [],
                error = Some (''Could not retrieve database schema. Details: '' @ exn_str e)\<rparr>
         \<and> get_db_schema db =
             Inr (''Error: Could not retrieve database schema. Details: '' @ exn_str e)"
proof -
  from assms have "get_db_schema_try db = Inl e" by (simp add: try_fail_alike)
  with assms show ?thesis by (simp add: get_structured_db_schema_def get_db_schema_def)
qed

theorem extraction_failure_is_returned_witness:
  "get_structured_db_schema_try half_readable_db = Inl (Error ''permission denied'')
   \<and> get_structured_db_schema half_readable_db =
       Inr \<lparr>tables = [], relationships = [],
            error = Some ''Could not retrieve database schema. Details: permission denied''\<rparr>
   \<and> get_db_schema half_readable_db =
       Inr ''Error: Could not retrieve database schema. Details: permission denied''"
proof -
  have h: "get_structured_db_schema_try half_readable_db = Inl (Error ''permission denied'')"
    by (simp add: get_structured_db_schema_try_def half_readable_db_def)
  from extraction_failure_is_returned [OF h] h show ?thesis by simp
qed

text \<open>
  Claim C10: \<open>get_structured_db_schema\<close> never raises and always returns a dict with a
  \<open>tables\<close> and a \<open>relationships\<close> list. When the body raised, both lists are empty and
  \<open>error\<close> carries the failure detail; when it did not, the dict is the extracted schema
  and has no \<open>error\<close> key, so the key alone tells failure from an empty database.
\<close>

theorem structured_schema_never_raises:
  "\<exists>d. get_structured_db_schema db = Inr d \<and>
     (case get_structured_db_schema_try db of
        Inl e \<Rightarrow> tables d = [] \<and> relationships d = []
                 \<and> error d = Some (''Could not retrieve database schema. Details: '' @ exn_str e)
      | Inr s \<Rightarrow> d = s \<and> error d = None)"
proof (cases "get_structured_db_schema_try db")
  case (Inl e)
  then show ?thesis by (simp add: get_structured_db_schema_def)
next
  case (Inr s)
  then have "error s = None"
    by (auto simp: get_structured_db_schema_try_def dest: tables_loop_error
        split: option.splits sum.splits)
  with Inr show ?thesis by (simp add: get_structured_db_schema_def)
qed

subsection \<open>The serving path on an introspection failure\<close>

text \<open>
  Claim C4, as stated: a schema-introspection failure does not fail the request. It does
  not hold: with the unreachable database the endpoint raises an HTTP 500.
\<close>

theorem serving_fallback_counterexample:
  "query_database unreachable_services ''List all departments.'' =
     Inl (HTTPException 500
            ''Error: Could not retrieve database schema. Details: unable to open database file'')"
  by (simp add: query_database_def get_db_schema_def get_db_schema_try_def
      unreachable_services_def unreachable_db_def startswith_def)

text \<open>
  Claim C4, amended: on the serving path a schema-introspection failure fails the
  request: the endpoint raises an HTTP 500 whose detail is the error text returned by
  \<open>get_db_schema\<close>, whatever the index holds; there is no fallback.
\<close>

theorem serving_fails_on_introspection_failure:
  assumes "get_db_schema_try (database svc) = Inl e"
  shows "query_database svc user_query =
           Inl (HTTPException 500
                  (''Error: Could not retrieve database schema. Details: '' @ exn_str e))"
  using assms by (simp add: query_database_def get_db_schema_def startswith_def)

theorem serving_fails_on_introspection_failure_witness:
  "get_db_schema_try (database unreachable_services) = Inl (Error ''unable to open database file'')
   \<and> query_database unreachable_services ''Show all employees'' =
       Inl (HTTPException 500
              ''Error: Could not retrieve database schema. Details: unable to open database file'')"
proof -
  have h: "get_db_schema_try (database unreachable_services)
           = Inl (Error ''unable to open database file'')"
    by (simp add: get_db_schema_try_def unreachable_services_def unreachable_db_def)
  from serving_fails_on_introspection_failure [OF h] h show ?thesis by simp
qed

subsection \<open>The prompt\<close>

text \<open>
  Claim C8: for every dialect, schema context and question, the assembled prompt is one
  string that contains the dialect name, the schema context inside a fenced \<open>sql\<close> block,
  the literal question, and the instruction to return only the SQL query.
\<close>

theorem prompt_contents:
  "contains (full_prompt_for_ollama llm_db_type schema_context user_query) llm_db_type
   \<and> contains (full_prompt_for_ollama llm_db_type schema_context user_query)
        (''```sql\<newline>'' @ schema_context @ ''\<newline>```\<newline>'')
   \<and> contains (full_prompt_for_ollama llm_db_type schema_context user_query) user_query
   \<and> contains (full_prompt_for_ollama llm_db_type schema_context user_query)
        ''You must only return the SQL query and nothing else.''"
  using prompt_has_dialect prompt_has_fenced_schema prompt_has_question prompt_has_instruction
  by blast

subsection \<open>Rendering of a table\<close>

lemma prefix_append_cases:
  assumes "prefix m (n @ t)"
  shows "(\<exists>us. n = m @ us) \<or> (\<exists>us. n @ us = m \<and> prefix us t)"
proof -
  from assms obtain zs where "n @ t = m @ zs" by (auto simp: prefix_def)
  then show ?thesis by (auto simp: append_eq_append_conv2 prefix_def)
qed

lemma no_not_null_in_name:
  assumes "CHR '' '' \<notin> set n" and "n \<noteq> []"
  shows "\<not> prefix ''NOT NULL'' (n @ CHR '' '' # CHR ''('' # r)"
proof
  assume "prefix ''NOT NULL'' (n @ CHR '' '' # CHR ''('' # r)"
  from prefix_append_cases [OF this] show False
    using assms by (auto simp: append_eq_Cons_conv Cons_eq_append_conv)
qed

lemma no_primary_key_in_name:
  assumes "CHR '' '' \<notin> set n" and "n \<noteq> []"
  shows "\<not> prefix ''PRIMARY KEY'' (n @ CHR '' '' # CHR ''('' # r)"
proof
  assume "prefix ''PRIMARY KEY'' (n @ CHR '' '' # CHR ''('' # r)"
  from prefix_append_cases [OF this] show False
    using assms by (auto simp: append_eq_Cons_conv Cons_eq_append_conv)
qed

lemma count_over_name:
  assumes "CHR '' '' \<notin> set n"
    and "\<And>m. CHR '' '' \<notin> set m \<Longrightarrow> m \<noteq> [] \<Longrightarrow> \<not> prefix sub (m @ CHR '' '' # CHR ''('' # r)"
  shows "count_occurrences (n @ CHR '' '' # CHR ''('' # r) sub
         = count_occurrences (CHR '' '' # CHR ''('' # r) sub"
  using assms(1)
proof (induction n)
  case Nil
  then show ?case by simp
next
  case (Cons c cs)
  then have "\<not> prefix sub ((c # cs) @ CHR '' '' # CHR ''('' # r)"
    by (intro assms(2)) auto
  with Cons show ?case by simp
qed

lemma count_after_create_table:
  assumes "CHR '' '' \<notin> set n"
  shows "count_occurrences (''CREATE TABLE '' @ n @ CHR '' '' # CHR ''('' # r) ''PRIMARY KEY''
           = count_occurrences (CHR '' '' # CHR ''('' # r) ''PRIMARY KEY''"
    and "count_occurrences (''CREATE TABLE '' @ n @ CHR '' '' # CHR ''('' # r) ''NOT NULL''
           = count_occurrences (CHR '' '' # CHR ''('' # r) ''NOT NULL''"
proof -
  have "count_occurrences (n @ CHR '' '' # CHR ''('' # r) ''PRIMARY KEY''
           = count_occurrences (CHR '' '' # CHR ''('' # r) ''PRIMARY KEY''"
    using assms by (rule count_over_name) (rule no_primary_key_in_name)
  then show "count_occurrences (''CREATE TABLE '' @ n @ CHR '' '' # CHR ''('' # r) ''PRIMARY KEY''
           = count_occurrences (CHR '' '' # CHR ''('' # r) ''PRIMARY KEY''"
    by simp
  have "count_occurrences (n @ CHR '' '' # CHR ''('' # r) ''NOT NULL''
           = count_occurrences (CHR '' '' # CHR ''('' # r) ''NOT NULL''"
    using assms by (rule count_over_name) (rule no_not_null_in_name)
  then show "count_occurrences (''CREATE TABLE '' @ n @ CHR '' '' # CHR ''('' # r) ''NOT NULL''
           = count_occurrences (CHR '' '' # CHR ''('' # r) ''NOT NULL''"
    by simp
qed

text \<open>
  Claim C9: for a table with the columns \<open>(EmployeeID, INTEGER, primary key, not null)\<close> and
  \<open>(FirstName, TEXT, not null)\<close> and no foreign keys, the rendered DDL contains exactly
  one \<open>PRIMARY KEY\<close> marker and exactly two \<open>NOT NULL\<close> markers, with the columns in
  declaration order. Both extraction functions produce the same text (the plain one
  followed by two line breaks), for every table name without a space character.
\<close>

theorem employee_table_rendering:
  assumes db: "connect db = None" "get_table_names db = Inr [n]"
      "get_columns db n = Inr [c1, c2]" "get_foreign_keys db n = Inr []"
    and c1: "col_name c1 = ''EmployeeID''" "col_type c1 = ''INTEGER''"
      "is_primary_key c1" "\<not> is_nullable c1"
    and c2: "col_name c2 = ''FirstName''" "col_type c2 = ''TEXT''"
      "\<not> is_primary_key c2" "\<not> is_nullable c2"
    and n: "CHR '' '' \<notin> set n"
  shows "\<exists>d. get_structured_db_schema db = Inr d
     \<and> map t_ddl (tables d) =
         [Some (''CREATE TABLE '' @ n
                @ '' (\<newline>    EmployeeID INTEGER PRIMARY KEY NOT NULL,\<newline>    FirstName TEXT NOT NULL\<newline>);'')]
     \<and> get_db_schema db =
         Inr (''CREATE TABLE '' @ n
              @ '' (\<newline>    EmployeeID INTEGER PRIMARY KEY NOT NULL,\<newline>    FirstName TEXT NOT NULL\<newline>);\<newline>\<newline>'')
     \<and> count_occurrences (''CREATE TABLE '' @ n
              @ '' (\<newline>    EmployeeID INTEGER PRIMARY KEY NOT NULL,\<newline>    FirstName TEXT NOT NULL\<newline>);'')
           ''PRIMARY KEY'' = 1
     \<and> count_occurrences (''CREATE TABLE '' @ n
              @ '' (\<newline>    EmployeeID INTEGER PRIMARY KEY NOT NULL,\<newline>    FirstName TEXT NOT NULL\<newline>);'')
           ''NOT NULL'' = 2"
proof -
  have d1: "col_def c1 = ''    EmployeeID INTEGER PRIMARY KEY NOT NULL''"
    using c1 by (simp add: col_def_def)
  have d2: "col_def c2 = ''    FirstName TEXT NOT NULL''"
    using c2 by (simp add: col_def_def)
  have s: "get_structured_db_schema_try db = Inr
      \<lparr>tables = [\<lparr>t_name = Some n,
         t_ddl = Some (''CREATE TABLE '' @ n
                @ '' (\<newline>    EmployeeID INTEGER PRIMARY KEY NOT NULL,\<newline>    FirstName TEXT NOT NULL\<newline>);''),
         t_description = Some (''Table '' @ n @ '' with columns: EmployeeID (INTEGER) (primary key, not null), FirstName (TEXT) (not null)''),
         t_columns = [''EmployeeID (INTEGER) (primary key, not null)'', ''FirstName (TEXT) (not null)''],
         t_foreign_keys = []\<rparr>],
       relationships = [], error = None\<rparr>"
    using db c1 c2 by (simp add: get_structured_db_schema_try_def d1 d2)
  have g: "get_db_schema_try db = Inr (''CREATE TABLE '' @ n
              @ '' (\<newline>    EmployeeID INTEGER PRIMARY KEY NOT NULL,\<newline>    FirstName TEXT NOT NULL\<newline>);\<newline>\<newline>'')"
    using db by (simp add: get_db_schema_try_def d1 d2)
  have p: "count_occurrences (''CREATE TABLE '' @ n
              @ '' (\<newline>    EmployeeID INTEGER PRIMARY KEY NOT NULL,\<newline>    FirstName TEXT NOT NULL\<newline>);'')
           ''PRIMARY KEY'' = 1"
    using count_after_create_table(1) [OF n] by simp
  have q: "count_occurrences (''CREATE TABLE '' @ n
              @ '' (\<newline>    EmployeeID INTEGER PRIMARY KEY NOT NULL,\<newline>    FirstName TEXT NOT NULL\<newline>);'')
           ''NOT NULL'' = 2"
    using count_after_create_table(2) [OF n] by simp
  show ?thesis
    using s g p q by (simp add: get_structured_db_schema_def get_db_schema_def)
qed

theorem employee_table_rendering_witness:
  "connect employees_db = None
   \<and> get_table_names employees_db = Inr [''Employees'']
   \<and> CHR '' '' \<notin> set ''Employees''
   \<and> get_db_schema employees_db =
       Inr ''CREATE TABLE Employees (\<newline>    EmployeeID INTEGER PRIMARY KEY NOT NULL,\<newline>    FirstName TEXT NOT NULL\<newline>);\<newline>\<newline>''
   \<and> count_occurrences
         ''CREATE TABLE Employees (\<newline>    EmployeeID INTEGER PRIMARY KEY NOT NULL,\<newline>    FirstName TEXT NOT NULL\<newline>);''
         ''PRIMARY KEY'' = 1
   \<and> count_occurrences
         ''CREATE TABLE Employees (\<newline>    EmployeeID INTEGER PRIMARY KEY NOT NULL,\<newline>    FirstName TEXT NOT NULL\<newline>);''
         ''NOT NULL'' = 2"
proof -
  let ?c1 = "\<lparr>col_name = ''EmployeeID'', col_type = ''INTEGER'',
               primary_key = Some 1, nullable = Some False\<rparr>"
  let ?c2 = "\<lparr>col_name = ''FirstName'', col_type = ''TEXT'',
               primary_key = Some 0, nullable = Some False\<rparr>"
  have db: "connect employees_db = None" "get_table_names employees_db = Inr [''Employees'']"
    "get_columns employees_db ''Employees'' = Inr [?c1, ?c2]"
    "get_foreign_keys employees_db ''Employees'' = Inr []"
    by (simp_all add: employees_db_def)
  have c1: "col_name ?c1 = ''EmployeeID''" "col_type ?c1 = ''INTEGER''"
    "is_primary_key ?c1" "\<not> is_nullable ?c1"
    by (simp_all add: is_primary_key_def is_nullable_def)
  have c2: "col_name ?c2 = ''FirstName''" "col_type ?c2 = ''TEXT''"
    "\<not> is_primary_key ?c2" "\<not> is_nullable ?c2"
    by (simp_all add: is_primary_key_def is_nullable_def)
  have n: "CHR '' '' \<notin> set ''Employees''" by simp
  from employee_table_rendering [OF db c1 c2 n] db n show ?thesis by auto
qed

subsection \<open>Foreign-key constraint names\<close>

lemma foreign_keys_loop_closed:
  "foreign_keys_loop table_name fks schema_info
     = schema_info @ map (fk_constraint table_name) fks"
  by (induction fks arbitrary: schema_info) auto




subsection \<open>The document builder and the index\<close>

lemma map_enumerate_index:
  "map (\<lambda>(k, x). f k) (enumerate i xs) = map f [i..<i + length xs]"
proof (induction xs arbitrary: i)
  case Nil
  then show ?case by simp
next
  case (Cons x xs)
  have "[i..<i + length (x # xs)] = i # [Suc i..<Suc i + length xs]"
    by (subst upt_rec) simp
  with Cons [of "Suc i"] show ?case by simp
qed

lemma enumerate_tables_closed:
  "enumerate_tables i ts (documents, metadatas, ids)
     = (documents @ map (\<lambda>(k, t). doc_content k t) (enumerate i ts),
        metadatas @ map (\<lambda>(k, t). [(''type'', ''table_schema''), (''table_name'', table_name_of k t)])
                      (enumerate i ts),
        ids @ map (\<lambda>(k, t). table_id k t) (enumerate i ts))"
  by (induction ts arbitrary: i documents metadatas ids) auto

lemma enumerate_relationships_closed:
  "enumerate_relationships i rs (documents, metadatas, ids)
     = (documents @ map (\<lambda>(k, r). rel_description k r) (enumerate i rs),
        metadatas @ map (\<lambda>(k, r). [(''type'', ''relationship'')]) (enumerate i rs),
        ids @ map (\<lambda>(k, r). rel_id k) (enumerate i rs))"
  by (induction rs arbitrary: i documents metadatas ids) auto

text \<open>
  Claim C5: the document-building step is a function of the snapshot alone. Every
  document, metadata entry and id is computed from one entry of the snapshot and its
  position; the lists start empty at each call and nothing else is read. Two runs on
  the same snapshot therefore build the same documents and the same ids.
\<close>

theorem build_documents_function_of_snapshot:
  "build_documents schema_info
     = (map (\<lambda>(i, table). doc_content i table) (enumerate 0 (tables schema_info))
        @ map (\<lambda>(i, rel). rel_description i rel) (enumerate 0 (relationships schema_info)),
        map (\<lambda>(i, table). [(''type'', ''table_schema''), (''table_name'', table_name_of i table)])
            (enumerate 0 (tables schema_info))
        @ map (\<lambda>(i, rel). [(''type'', ''relationship'')]) (enumerate 0 (relationships schema_info)),
        map (\<lambda>(i, table). table_id i table) (enumerate 0 (tables schema_info))
        @ map (\<lambda>(i, rel). rel_id i) (enumerate 0 (relationships schema_info)))"
  by (simp add: build_documents_def enumerate_tables_closed enumerate_relationships_closed)

lemma fold_update_map_add:
  "fold (\<lambda>(k, v) c. c(k \<mapsto> v)) xs c = c ++ map_of (rev xs)"
proof (induction xs arbitrary: c)
  case Nil
  then show ?case by simp
next
  case (Cons x xs)
  let ?f = "\<lambda>(k, v) c. c(k \<mapsto> v)"
  obtain k v where x: "x = (k, v)" by (cases x)
  have "fold ?f (x # xs) c = fold ?f xs (?f x c)" by simp
  also have "\<dots> = ?f x c ++ map_of (rev xs)" by (rule Cons.IH)
  also have "?f x c = c ++ [k \<mapsto> v]" using x by simp
  also have "(c ++ [k \<mapsto> v]) ++ map_of (rev xs) = c ++ ([k \<mapsto> v] ++ map_of (rev xs))"
    by (rule map_add_assoc [symmetric])
  also have "[k \<mapsto> v] ++ map_of (rev xs) = map_of (rev (x # xs))"
    using x by (simp add: map_of_append)
  finally show ?case .
qed

lemma fold_update_twice:
  "fold (\<lambda>(k, v) c. c(k \<mapsto> v)) xs (fold (\<lambda>(k, v) c. c(k \<mapsto> v)) xs c)
     = fold (\<lambda>(k, v) c. c(k \<mapsto> v)) xs c"
proof -
  have "(c ++ map_of (rev xs)) ++ map_of (rev xs) = c ++ (map_of (rev xs) ++ map_of (rev xs))"
    by (rule map_add_assoc [symmetric])
  also have "map_of (rev xs) ++ map_of (rev xs) = map_of (rev xs)"
    by (rule map_add_subsumed1) (rule map_le_refl)
  finally show ?thesis by (simp only: fold_update_map_add)
qed

lemma upsert_idempotent:
  "upsert documents metadatas ids embeddings (upsert documents metadatas ids embeddings collection)
     = upsert documents metadatas ids embeddings collection"
proof -
  have f: "(\<lambda>(i, d, m, v) c. c(i \<mapsto> (d, m, v))) = (\<lambda>(k, v) c. c(k \<mapsto> v))"
    by (auto simp: fun_eq_iff)
  show ?thesis unfolding upsert_def f by (rule fold_update_twice)
qed

lemma of_char_digit_char: "d < 10 \<Longrightarrow> (of_char (digit_char d) :: nat) = 48 + d"
  by (simp add: digit_char_def)

lemma digit_char_inj: "a < 10 \<Longrightarrow> b < 10 \<Longrightarrow> digit_char a = digit_char b \<Longrightarrow> a = b"
proof -
  assume a: "a < 10" and b: "b < 10" and e: "digit_char a = digit_char b"
  have "48 + a = (of_char (digit_char a) :: nat)" using a by (simp only: of_char_digit_char)
  also have "\<dots> = of_char (digit_char b)" by (simp only: e)
  also have "\<dots> = 48 + b" using b by (simp only: of_char_digit_char)
  finally show "a = b" by simp
qed

lemma digit_char_no_underscore: "d < 10 \<Longrightarrow> digit_char d \<noteq> CHR ''_''"
proof
  assume d: "d < 10" and e: "digit_char d = CHR ''_''"
  have "48 + d = (of_char (digit_char d) :: nat)" using d by (simp only: of_char_digit_char)
  also have "\<dots> = 95" by (simp only: e) simp
  finally show False using d by simp
qed

lemma str_nat_nonempty: "str_nat n \<noteq> []"
  by (subst str_nat.simps) simp

lemma str_nat_no_underscore: "CHR ''_'' \<notin> set (str_nat n)"
proof (induction n rule: str_nat.induct)
  case (1 n)
  show ?case
  proof (cases "n < 10")
    case True
    then show ?thesis
      by (subst str_nat.simps) (simp add: digit_char_no_underscore [symmetric])
  next
    case False
    with 1 have "CHR ''_'' \<notin> set (str_nat (n div 10))" by simp
    moreover have "digit_char (n mod 10) \<noteq> CHR ''_''"
      by (rule digit_char_no_underscore) simp
    ultimately show ?thesis using False
      by (subst str_nat.simps) auto
  qed
qed

lemma str_nat_inj: "str_nat m = str_nat n \<Longrightarrow> m = n"
proof (induction m arbitrary: n rule: str_nat.induct)
  case (1 m)
  show ?case
  proof (cases "m < 10")
    case m: True
    show ?thesis
    proof (cases "n < 10")
      case True
      with m "1.prems" have "digit_char m = digit_char n"
        by (simp add: str_nat.simps [of m] str_nat.simps [of n])
      with m True show ?thesis by (rule digit_char_inj)
    next
      case False
      with m "1.prems" have "str_nat (n div 10) = []"
        by (simp add: str_nat.simps [of m] str_nat.simps [of n])
      then show ?thesis by (simp add: str_nat_nonempty)
    qed
  next
    case m: False
    show ?thesis
    proof (cases "n < 10")
      case True
      with m "1.prems" have "str_nat (m div 10) = []"
        by (simp add: str_nat.simps [of m] str_nat.simps [of n])
      then show ?thesis by (simp add: str_nat_nonempty)
    next
      case False
      with m "1.prems" have e: "str_nat (m div 10) = str_nat (n div 10)"
        and d: "digit_char (m mod 10) = digit_char (n mod 10)"
        by (simp_all add: str_nat.simps [of m] str_nat.simps [of n])
      from "1.IH" [OF m e] have "m div 10 = n div 10" .
      moreover from d have "m mod 10 = n mod 10" by (intro digit_char_inj) simp_all
      ultimately show ?thesis by (metis div_mult_mod_eq)
    qed
  qed
qed

lemma after_last_separator:
  assumes "a @ u # d = b @ u # e" and "u \<notin> set d" and "u \<notin> set e"
  shows "d = e"
proof -
  have "takeWhile (\<lambda>c. c \<noteq> u) (rev (a @ u # d)) = rev d"
    using assms(2) by (auto simp: takeWhile_tail)
  moreover have "takeWhile (\<lambda>c. c \<noteq> u) (rev (b @ u # e)) = rev e"
    using assms(3) by (auto simp: takeWhile_tail)
  ultimately have "rev d = rev e" using assms(1) by simp
  then show ?thesis by simp
qed

lemma table_id_inj: "table_id i t = table_id j t' \<Longrightarrow> i = j"
proof -
  assume "table_id i t = table_id j t'"
  then have "table_name_of i t @ CHR ''_'' # str_nat i = table_name_of j t' @ CHR ''_'' # str_nat j"
    by (simp add: table_id_def)
  then have "str_nat i = str_nat j"
    by (rule after_last_separator) (rule str_nat_no_underscore)+
  then show "i = j" by (rule str_nat_inj)
qed

lemma distinct_map_by_index:
  assumes "\<And>x y. f x = f y \<Longrightarrow> fst x = fst y" and "distinct (map fst xs)"
  shows "distinct (map f xs)"
proof -
  from assms(2) have d: "distinct xs" and i: "inj_on fst (set xs)"
    by (simp_all add: distinct_map)
  have "inj_on f (set xs)"
  proof (rule inj_onI)
    fix x y assume "x \<in> set xs" "y \<in> set xs" "f x = f y"
    from assms(1) [OF \<open>f x = f y\<close>] have "fst x = fst y" .
    with i \<open>x \<in> set xs\<close> \<open>y \<in> set xs\<close> show "x = y" by (simp add: inj_on_def)
  qed
  with d show ?thesis by (simp add: distinct_map)
qed

lemma ids_distinct: "distinct (snd (snd (build_documents schema_info)))"
proof -
  let ?ts = "enumerate 0 (tables schema_info)"
  let ?rs = "enumerate 0 (relationships schema_info)"
  have t: "distinct (map (\<lambda>(k, t). table_id k t) ?ts)"
    by (rule distinct_map_by_index) (auto dest: table_id_inj)
  have r: "distinct (map (\<lambda>(k, r). rel_id k) ?rs)"
    by (rule distinct_map_by_index) (auto simp: rel_id_def dest: str_nat_inj)
  have x: "set (map (\<lambda>(k, t). table_id k t) ?ts) \<inter> set (map (\<lambda>(k, r). rel_id k) ?rs) = {}"
    by (auto simp: table_id_def rel_id_def)
  show ?thesis using t r x
    by (simp add: build_documents_def enumerate_tables_closed enumerate_relationships_closed)
qed

text \<open>
  Claim C6: the ids are functions of (table name, position) for table documents and of
  the position for relationship documents, no id occurs twice in one batch, and
  indexing the same snapshot a second time leaves the client as the first run left it
  (same ids, documents, metadata and vectors), whether the first run completed or
  raised. The embedding provider is the same function in both runs.
\<close>

theorem reindexing_changes_nothing:
  "add_schema_to_chroma svc (fst (add_schema_to_chroma svc client schema_info)) schema_info
     = add_schema_to_chroma svc client schema_info
   \<and> snd (snd (build_documents schema_info))
     = map (\<lambda>(i, table).
              ''schema_table_''
              @ (case t_name table of Some n \<Rightarrow> n | None \<Rightarrow> ''table_'' @ str_nat i)
              @ ''_'' @ str_nat i)
         (enumerate 0 (tables schema_info))
       @ map (\<lambda>i. ''schema_rel_'' @ str_nat i) [0..<length (relationships schema_info)]
   \<and> distinct (snd (snd (build_documents schema_info)))"
proof (intro conjI)
  show "distinct (snd (snd (build_documents schema_info)))" by (rule ids_distinct)
next
  obtain documents metadatas ids where b: "build_documents schema_info = (documents, metadatas, ids)"
    by (cases "build_documents schema_info")
  show "add_schema_to_chroma svc (fst (add_schema_to_chroma svc client schema_info)) schema_info
     = add_schema_to_chroma svc client schema_info"
  proof (cases "documents = []")
    case True
    with b show ?thesis by (simp add: add_schema_to_chroma_def)
  next
    case False
    show ?thesis
    proof (cases "embeddings_of (get_ollama_embedding svc) documents")
      case (Inl e)
      with b False show ?thesis by (simp add: add_schema_to_chroma_def)
    next
      case (Inr embeddings)
      with b False show ?thesis
        by (simp add: add_schema_to_chroma_def upsert_idempotent)
    qed
  qed
next
  have "map (\<lambda>(k, r). rel_id k) (enumerate 0 (relationships schema_info))
        = map (\<lambda>i. ''schema_rel_'' @ str_nat i) [0..<length (relationships schema_info)]"
    using map_enumerate_index [of "\<lambda>i. ''schema_rel_'' @ str_nat i" 0 "relationships schema_info"]
    by (simp add: rel_id_def)
  then show "snd (snd (build_documents schema_info))
     = map (\<lambda>(i, table).
              ''schema_table_''
              @ (case t_name table of Some n \<Rightarrow> n | None \<Rightarrow> ''table_'' @ str_nat i)
              @ ''_'' @ str_nat i)
         (enumerate 0 (tables schema_info))
       @ map (\<lambda>i. ''schema_rel_'' @ str_nat i) [0..<length (relationships schema_info)]"
    by (simp add: build_documents_def enumerate_tables_closed enumerate_relationships_closed
        table_id_def table_name_of_def)
qed

subsection \<open>Stripping, and the answers of the example services\<close>




lemma slice_between:
  "slice_from_to_end (length p) (length q) (p @ body @ q) = body"
  by (simp add: slice_from_to_end_def)

lemma cleanup_fenced: "cleanup (''```sql'' @ body @ ''```'') = strip body"
proof -
  have 1: "startswith (''```sql'' @ body @ ''```'') ''```sql''"
    unfolding startswith_def by (rule prefixI) (rule refl)
  have 2: "endswith (''```sql'' @ body @ ''```'') ''```''"
    unfolding endswith_def by (rule suffixI [of _ "''```sql'' @ body"]) (simp only: append_assoc)
  show ?thesis
    unfolding cleanup_def by (simp only: 1 2 slice_between if_True simp_thms)
qed

lemma is_space_simps:
  "is_space (CHR '' '')" "is_space (CHR ''\<newline>'')" "\<not> is_space (CHR ''`'')"
  "\<not> is_space (CHR ''S'')" "\<not> is_space (CHR '';'')"
  by (simp_all add: is_space_def)

lemma fenced_reply_text:
  "extract_generated_sql fenced_reply
     = Inr (''```sql'' @ ''\<newline>SELECT FirstName FROM Employees;\<newline>'' @ ''```'')"
  by (simp add: extract_generated_sql_def output_has_message_def fenced_reply_def strip_def
      is_space_simps)




lemma fenced_services_try:
  "langflow_try fenced_services input_value
     = Inr \<lparr>sql_query = ''SELECT FirstName FROM Employees;'',
            query_result = [[(''FirstName'', ''Alice'')], [(''FirstName'', ''Bob'')]]\<rparr>"
proof -
  have p: "langflow_post fenced_services input_value = Inr fenced_reply"
    by (simp add: fenced_services_def)
  have s: "strip ''\<newline>SELECT FirstName FROM Employees;\<newline>'' = ''SELECT FirstName FROM Employees;''"
    by (simp add: strip_def is_space_simps)
  have x: "execute_generated_sql fenced_services ''SELECT FirstName FROM Employees;''
         = Inr [[(''FirstName'', ''Alice'')], [(''FirstName'', ''Bob'')]]"
    by (simp add: execute_generated_sql_def fenced_services_def dict_def)
  show ?thesis
    unfolding langflow_try_def
    by (simp only: p and_then_Inr fenced_reply_text cleanup_fenced Let_def s x)
qed

subsection \<open>The retrieval fallback\<close>

lemma table_names_loop_extends:
  "table_names_loop db ts acc = Inr info \<Longrightarrow> \<exists>more. info = acc @ more"
proof (induction ts arbitrary: acc)
  case Nil
  then show ?case by simp
next
  case (Cons t ts)
  from Cons.prems obtain acc1 where
    "table_names_loop db ts (acc @ [''CREATE TABLE '' @ t @ '' (''] @ acc1) = Inr info"
    by (auto simp: Let_def foreign_keys_loop_closed split: sum.splits)
  from Cons.IH [OF this] show ?case by auto
qed

lemma join_starts_with_first: "prefix x (join sep (x # ys))"
  by (cases ys) auto

lemma schema_text_is_no_error:
  assumes "get_db_schema_try db = Inr s"
  shows "\<not> startswith s ''Error''"
proof -
  from assms obtain ts info where
    info: "table_names_loop db ts [] = Inr info" and s: "s = join ''\<newline>'' info"
    by (auto simp: get_db_schema_try_def split: option.splits sum.splits)
  show ?thesis
  proof (cases ts)
    case Nil
    with info s show ?thesis by (simp add: startswith_def)
  next
    case (Cons t ts')
    with info obtain acc1 where
      "table_names_loop db ts' ([''CREATE TABLE '' @ t @ '' (''] @ acc1) = Inr info"
      by (auto simp: Let_def foreign_keys_loop_closed split: sum.splits)
    from table_names_loop_extends [OF this] obtain more where
      "info = (''CREATE TABLE '' @ t @ '' ('') # more" by auto
    with s have "prefix (''CREATE TABLE '' @ t @ '' ('') s"
      by (simp only: join_starts_with_first)
    then obtain r where "s = ''CREATE TABLE '' @ r" by (auto simp: prefix_def)
    then show ?thesis by (simp add: startswith_def)
  qed
qed

lemma retriever_empty:
  assumes "client collection_name = None
           \<or> (\<exists>collection v. client collection_name = Some collection
                \<and> get_ollama_embedding svc q = Inr v
                \<and> zero_documents (collection_query svc collection v n))"
  shows "query_schema_from_chroma svc client q n = Inr []"
  using assms
proof
  assume "client collection_name = None"
  then show ?thesis by (simp add: query_schema_from_chroma_def)
next
  assume "\<exists>collection v. client collection_name = Some collection
                \<and> get_ollama_embedding svc q = Inr v
                \<and> zero_documents (collection_query svc collection v n)"
  then obtain collection v where c: "client collection_name = Some collection"
    and v: "get_ollama_embedding svc q = Inr v"
    and z: "zero_documents (collection_query svc collection v n)"
    by blast
  show ?thesis
  proof (cases "collection_query svc collection v n")
    case None
    with c v show ?thesis by (simp add: query_schema_from_chroma_def)
  next
    case (Some docs)
    show ?thesis
    proof (cases docs)
      case Nil
      with Some c v show ?thesis by (simp add: query_schema_from_chroma_def)
    next
      case (Cons docs0 others)
      with Some z have "docs0 = []" by (simp add: zero_documents_def)
      with Cons Some c v show ?thesis by (simp add: query_schema_from_chroma_def)
    qed
  qed
qed

lemma query_database_unfiltered:
  assumes "get_db_schema_try (database svc) = Inr full_db_schema"
    and "initialize_chroma_client svc = Inr client"
    and "query_schema_from_chroma svc client user_query 5 = Inr []"
  shows "query_database svc user_query =
     (case langflow_try svc
             (strip (full_prompt_for_ollama
                       (split_first (CHR ''+'') (split_first (CHR '':'') (DATABASE_URI svc)))
                       full_db_schema user_query)) of
        Inl e \<Rightarrow> Inl (langflow_except e)
      | Inr response \<Rightarrow> Inr response)"
  using assms schema_text_is_no_error [OF assms(1)]
  by (simp add: query_database_def get_db_schema_def schema_context_for_llm_def)

lemma employees_schema_text:
  "get_db_schema_try employees_db =
     Inr ''CREATE TABLE Employees (\<newline>    EmployeeID INTEGER PRIMARY KEY NOT NULL,\<newline>    FirstName TEXT NOT NULL\<newline>);\<newline>\<newline>''"
  by (simp add: get_db_schema_try_def employees_db_def col_def_def is_primary_key_def
      is_nullable_def)

text \<open>
  Claim C2: when the collection is absent, or the index query returns no documents,
  the retriever returns the empty list without raising, the schema context is the full
  text of \<open>get_db_schema\<close> (the rendering of all tables), and the request goes on to the
  generation step with a prompt built from that text.
\<close>

theorem empty_retrieval_falls_back_to_full_schema:
  assumes "get_db_schema_try (database svc) = Inr full_db_schema"
    and "initialize_chroma_client svc = Inr client"
    and "client collection_name = None
         \<or> (\<exists>collection v. client collection_name = Some collection
              \<and> get_ollama_embedding svc user_query = Inr v
              \<and> zero_documents (collection_query svc collection v 5))"
  shows "query_schema_from_chroma svc client user_query 5 = Inr []
     \<and> schema_context_for_llm [] full_db_schema = full_db_schema
     \<and> query_database svc user_query =
         (case langflow_try svc
                 (strip (full_prompt_for_ollama
                           (split_first (CHR ''+'') (split_first (CHR '':'') (DATABASE_URI svc)))
                           full_db_schema user_query)) of
            Inl e \<Rightarrow> Inl (langflow_except e)
          | Inr response \<Rightarrow> Inr response)"
proof -
  have r: "query_schema_from_chroma svc client user_query 5 = Inr []"
    using assms(3) by (rule retriever_empty)
  from query_database_unfiltered [OF assms(1,2) r] r show ?thesis
    by (simp add: schema_context_for_llm_def)
qed

theorem empty_retrieval_falls_back_to_full_schema_witness:
  "get_db_schema_try (database fenced_services) =
     Inr ''CREATE TABLE Employees (\<newline>    EmployeeID INTEGER PRIMARY KEY NOT NULL,\<newline>    FirstName TEXT NOT NULL\<newline>);\<newline>\<newline>''
   \<and> initialize_chroma_client fenced_services = Inr [collection_name \<mapsto> Map.empty]
   \<and> get_ollama_embedding fenced_services ''Who works here?'' = Inr 15
   \<and> zero_documents (collection_query fenced_services Map.empty 15 5)
   \<and> query_schema_from_chroma fenced_services [collection_name \<mapsto> Map.empty]
        ''Who works here?'' 5 = Inr []
   \<and> query_database fenced_services ''Who works here?''
       = Inr \<lparr>sql_query = ''SELECT FirstName FROM Employees;'',
              query_result = [[(''FirstName'', ''Alice'')], [(''FirstName'', ''Bob'')]]\<rparr>"
proof -
  have d: "get_db_schema_try (database fenced_services) =
     Inr ''CREATE TABLE Employees (\<newline>    EmployeeID INTEGER PRIMARY KEY NOT NULL,\<newline>    FirstName TEXT NOT NULL\<newline>);\<newline>\<newline>''"
    using employees_schema_text by (simp add: fenced_services_def)
  have c: "initialize_chroma_client fenced_services = Inr [collection_name \<mapsto> Map.empty]"
    by (simp add: fenced_services_def)
  have v: "get_ollama_embedding fenced_services ''Who works here?'' = Inr 15"
    by (simp add: fenced_services_def)
  have z: "zero_documents (collection_query fenced_services Map.empty 15 5)"
    by (simp add: fenced_services_def zero_documents_def)
  have n: "[collection_name \<mapsto> Map.empty] collection_name = None
         \<or> (\<exists>collection v. [collection_name \<mapsto> Map.empty] collection_name = Some collection
              \<and> get_ollama_embedding fenced_services ''Who works here?'' = Inr v
              \<and> zero_documents (collection_query fenced_services collection v 5))"
    using v z by simp
  from empty_retrieval_falls_back_to_full_schema [OF d c n] d c v z
  show ?thesis by (simp only: fenced_services_try sum.case simp_thms)
qed

subsection \<open>Cleanup of the generated answer\<close>




end
